theory Spec2Isabelle
  imports Complex_Main "HOL-Library.Word"
begin

section \<open>Greenlight: the data layer and its callers\<close>

text \<open>
  The development follows the Go sources: \<open>internal/data/movies.go\<close> (the movie
  record, its validation and the methods \<open>Get\<close>, \<open>Update\<close> and \<open>Delete\<close> of
  \<open>MovieModel\<close>),
  \<open>internal/data/models.go\<close> (the error value \<open>ErrRecordNotFound\<close>), the
  permissions file of the same package (\<open>Permissions\<close>, \<open>PermissionModel\<close>) and
  \<open>cmd/api\<close> (\<open>main\<close>, \<open>openDB\<close>, \<open>getMovieHandler\<close>).

  Go's \<open>int64\<close> and \<open>int32\<close> are words read through \<open>sint\<close>; a Go string is a
  byte list; a slice that may be \<open>nil\<close> is an optional list.
\<close>

subsection \<open>Values\<close>

type_synonym int64 = "64 word"
type_synonym int32 = "32 word"

text \<open>
  Error values. \<open>ErrRecordNotFound\<close> is the package variable of \<open>models.go\<close>;
  \<open>ErrNoRows\<close> is \<open>sql.ErrNoRows\<close>; \<open>ErrDeadlineExceeded\<close> is what a call made
  under an expired context reports; \<open>Err msg\<close> is any other error value, named by its
  message.
\<close>

datatype error =
    ErrRecordNotFound
  | ErrNoRows
  | ErrDeadlineExceeded
  | Err string

text \<open>
  The struct \<open>Movie\<close>. The declaration of the type \<open>Runtime\<close> is not among the
  sources, so it stays a type parameter \<open>'r\<close>; the code only compares it with
  \<open>0\<close> and assigns the literal \<open>102\<close>. \<open>CreatedAt\<close> is a point in time, kept as a
  number. \<open>Genres\<close> is \<open>None\<close> for the \<open>nil\<close> slice.
\<close>

record 'r Movie =
  ID :: int64
  CreatedAt :: int
  Title :: string
  Year :: int32
  Runtime :: 'r
  Genres :: "string list option"
  Version :: int32

subsection \<open>The database as the code sees it\<close>

text \<open>
  A row of the table \<open>movies\<close> holds the columns the statements name besides the key
  \<open>id\<close>. The table is keyed by \<open>id\<close>: the statements select, update and delete
  \<open>WHERE id = $n\<close> and read at most one row back. The \<open>version\<close> column holds what
  is scanned into the \<open>int32\<close> field; \<open>pq.Array\<close> passes a \<open>nil\<close> slice as
  \<open>NULL\<close> and back.
\<close>

record 'r movie_row =
  created_at :: int
  title :: string
  year :: int32
  runtime :: 'r
  genres :: "string list option"
  version :: int32

type_synonym 'r movies = "int64 \<rightharpoonup> 'r movie_row"

text \<open>
  How the database behaves during one call is a parameter of every operation:
  \<open>Answers t\<close> executes the statement and answers after \<open>t\<close> milliseconds,
  \<open>Fails msg\<close> reports an error without executing it (a lost connection, a rejected
  statement), \<open>Hangs\<close> never answers.
\<close>

datatype conduct = Answers nat | Fails string | Hangs

text \<open>
  A call made without a context (\<open>DB.QueryRow\<close>, \<open>DB.Exec\<close>) waits for the answer
  however long it takes: \<open>None\<close> stands for a call that never returns. The argument
  \<open>r\<close> is what the statement yields once executed.
\<close>

definition no_deadline :: "conduct \<Rightarrow> 'a \<Rightarrow> (error + 'a) option" where
  "no_deadline c r =
     (case c of
        Answers t \<Rightarrow> Some (Inr r)
      | Fails msg \<Rightarrow> Some (Inl (Err msg))
      | Hangs \<Rightarrow> None)"

text \<open>
  A call made under \<open>context.WithTimeout(context.Background(), d)\<close>
  (\<open>DB.QueryContext\<close>, \<open>DB.ExecContext\<close>, \<open>DB.PingContext\<close>) is cancelled when the
  deadline of \<open>d\<close> milliseconds passes; the cancelled statement has no effect. Such
  a call always returns, so its result needs no \<open>option\<close>.
\<close>

definition with_timeout :: "nat \<Rightarrow> conduct \<Rightarrow> 'a \<Rightarrow> error + 'a" where
  "with_timeout d c r =
     (case c of
        Answers t \<Rightarrow> if t \<le> d then Inr r else Inl ErrDeadlineExceeded
      | Fails msg \<Rightarrow> Inl (Err msg)
      | Hangs \<Rightarrow> Inl ErrDeadlineExceeded)"

subsection \<open>MovieModel\<close>

text \<open>
  \<open>SELECT id, created_at, title, year, runtime, genres, version FROM movies WHERE id = $1\<close>:
  the rows found, each already assembled as the struct the scan fills.
\<close>

definition select_movie :: "'r movies \<Rightarrow> int64 \<Rightarrow> 'r Movie list" where
  "select_movie tbl i =
     (case tbl i of
        None \<Rightarrow> []
      | Some row \<Rightarrow>
          [\<lparr>ID = i, CreatedAt = created_at row, Title = title row, Year = year row,
            Runtime = runtime row, Genres = genres row, Version = version row\<rparr>])"

text \<open>
  \<open>Get\<close>: ids below 1 are answered at once; \<open>QueryRow(\<dots>).Scan(\<dots>)\<close> reports
  \<open>sql.ErrNoRows\<close> on an empty result, which is mapped to \<open>ErrRecordNotFound\<close>; any
  other error is passed on.
\<close>

definition Get :: "conduct \<Rightarrow> 'r movies \<Rightarrow> int64 \<Rightarrow> (error + 'r Movie) option" where
  "Get c tbl i =
     (if sint i < 1 then Some (Inl ErrRecordNotFound)
      else
        (case no_deadline c (select_movie tbl i) of
           None \<Rightarrow> None
         | Some (Inl e) \<Rightarrow> Some (Inl e)
         | Some (Inr []) \<Rightarrow> Some (Inl ErrRecordNotFound)
         | Some (Inr (movie # _)) \<Rightarrow> Some (Inr movie)))"

text \<open>
  \<open>UPDATE movies SET title = $1, year = $2, runtime = $3, genres = $4,
  version = version + 1 WHERE id = $5 RETURNING version\<close>.
  The condition names the id only. PostgreSQL's integer addition does not wrap: at the
  largest \<open>int32\<close> the statement is rejected and the table is left as it was. The
  result is the list of returned versions and the table after the statement.
\<close>

definition update_movie :: "'r movies \<Rightarrow> 'r Movie \<Rightarrow> error + (int32 list \<times> 'r movies)" where
  "update_movie tbl movie =
     (case tbl (ID movie) of
        None \<Rightarrow> Inr ([], tbl)
      | Some row \<Rightarrow>
          if sint (version row) = 2147483647 then Inl (Err ''integer out of range'')
          else
            Inr ([version row + 1],
                 tbl(ID movie \<mapsto> row\<lparr>title := Title movie, year := Year movie,
                                        runtime := Runtime movie, genres := Genres movie,
                                        version := version row + 1\<rparr>)))"

text \<open>
  \<open>Update\<close> returns an \<open>error\<close> and writes the returned version through the pointer
  it was given: the result is the error (\<open>None\<close> for \<open>nil\<close>), the caller's struct
  after the call and the table after the call.
\<close>

definition Update ::
  "conduct \<Rightarrow> 'r movies \<Rightarrow> 'r Movie \<Rightarrow> (error option \<times> 'r Movie \<times> 'r movies) option" where
  "Update c tbl movie =
     (case no_deadline c (update_movie tbl movie) of
        None \<Rightarrow> None
      | Some (Inl e) \<Rightarrow> Some (Some e, movie, tbl)
      | Some (Inr (Inl e)) \<Rightarrow> Some (Some e, movie, tbl)
      | Some (Inr (Inr ([], tbl'))) \<Rightarrow> Some (Some ErrNoRows, movie, tbl')
      | Some (Inr (Inr (v # _, tbl'))) \<Rightarrow> Some (None, movie\<lparr>Version := v\<rparr>, tbl'))"

text \<open>
  \<open>DELETE FROM movies WHERE id = $1 RETURNING id\<close>: the number of rows affected and
  the table after the statement.
\<close>

definition delete_movie :: "'r movies \<Rightarrow> int64 \<Rightarrow> nat \<times> 'r movies" where
  "delete_movie tbl i =
     (case tbl i of
        None \<Rightarrow> (0, tbl)
      | Some row \<Rightarrow> (1, tbl(i := None)))"

text \<open>
  \<open>Delete\<close>: ids below 1 are answered at once; an error of \<open>Exec\<close> is passed on; so
  is an error of \<open>result.RowsAffected()\<close>, whose message is \<open>count_err\<close> (\<open>None\<close>
  when the driver reports the count); zero rows affected is \<open>ErrRecordNotFound\<close>.
\<close>

definition Delete ::
  "conduct \<Rightarrow> string option \<Rightarrow> 'r movies \<Rightarrow> int64 \<Rightarrow> (error option \<times> 'r movies) option" where
  "Delete c count_err tbl i =
     (if sint i < 1 then Some (Some ErrRecordNotFound, tbl)
      else
        (case no_deadline c (delete_movie tbl i) of
           None \<Rightarrow> None
         | Some (Inl e) \<Rightarrow> Some (Some e, tbl)
         | Some (Inr (rowsAffected, tbl')) \<Rightarrow>
             (case count_err of
                Some msg \<Rightarrow> Some (Some (Err msg), tbl')
              | None \<Rightarrow>
                  if rowsAffected = 0 then Some (Some ErrRecordNotFound, tbl')
                  else Some (None, tbl'))))"

subsection \<open>ValidateMovie\<close>

text \<open>
  Modelled from the spec: the package \<open>internal/validator\<close> is not among the
  sources, and the spec does not describe it. A validator is taken as the
  errors recorded so far, each a key and a message, and \<open>Check ok key message\<close> as
  its call sites in \<open>ValidateMovie\<close> use it: it records the message under the key
  when \<open>ok\<close> is false and does nothing otherwise.
\<close>

type_synonym Validator = "(string \<times> string) list"

definition Check :: "bool \<Rightarrow> string \<Rightarrow> string \<Rightarrow> Validator \<Rightarrow> Validator" where
  "Check ok key message v = (if ok then v else v @ [(key, message)])"

text \<open>
  Modelled from the spec: \<open>validator.Unique\<close> is not among the sources
  either. It is taken as the comment at its call describes it: it holds when all values
  of the slice are unique.
\<close>

definition Unique :: "string list \<Rightarrow> bool" where
  "Unique values = distinct values"

text \<open>The elements of a slice; the \<open>nil\<close> slice has none, and \<open>len\<close> of it is 0.\<close>

definition elems :: "'a list option \<Rightarrow> 'a list" where
  "elems s = (case s of None \<Rightarrow> [] | Some xs \<Rightarrow> xs)"

text \<open>
  \<open>ValidateMovie\<close> runs its eleven checks in the order of the source.
  \<open>now_year\<close> is \<open>time.Now().Year()\<close>, a Go \<open>int\<close>, which the code converts with
  \<open>int32(\<dots>)\<close>; the comparisons of \<open>Year\<close> are signed.
\<close>

definition ValidateMovie ::
  "int \<Rightarrow> Validator \<Rightarrow> ('r::{zero,linorder}) Movie \<Rightarrow> Validator" where
  "ValidateMovie now_year v m =
     (let v = Check (Title m \<noteq> []) ''title'' ''must be provided'' v;
          v = Check (length (Title m) \<le> 500) ''title'' ''must not be more than 500 bytes long'' v;
          v = Check (Year m \<noteq> 0) ''year'' ''must be provided'' v;
          v = Check (1888 \<le> sint (Year m)) ''year'' ''must be greater than 1888'' v;
          v = Check (sint (Year m) \<le> sint (word_of_int now_year :: int32))
                ''year'' ''must not be in the future'' v;
          v = Check (Runtime m \<noteq> 0) ''runtime'' ''must be provided'' v;
          v = Check (Runtime m > 0) ''runtime'' ''must be a positive integer'' v;
          v = Check (Genres m \<noteq> None) ''genres'' ''must be provided'' v;
          v = Check (length (elems (Genres m)) \<ge> 1) ''genres'' ''must contain at least 1 genre'' v;
          v = Check (length (elems (Genres m)) \<le> 5)
                ''genres'' ''must not contain more than 5 genres'' v;
          v = Check (Unique (elems (Genres m)))
                ''genres'' ''must not contain duplicate values'' v
      in v)"

subsection \<open>Permissions\<close>

type_synonym Permissions = "string list"

text \<open>\<open>Include\<close>: the loop over the indices of the slice, left at the first match.\<close>

fun Include :: "Permissions \<Rightarrow> string \<Rightarrow> bool" where
  "Include [] code = False"
| "Include (p # ps) code = (if code = p then True else Include ps code)"

text \<open>
  The three tables the statements of \<open>PermissionModel\<close> name: the ids of \<open>users\<close>,
  the pairs \<open>(user_id, permission_id)\<close> of \<open>users_permissions\<close> and the pairs
  \<open>(id, code)\<close> of \<open>permissions\<close>. The schema is not part of the sources, so the
  tables are plain lists of rows without key or reference constraints.
\<close>

record perm_db =
  users :: "int64 list"
  users_permissions :: "(int64 \<times> int64) list"
  permissions :: "(int64 \<times> string) list"

text \<open>
  \<open>SELECT p.code FROM users u
     INNER JOIN users_permissions up ON u.id = up.user_id
     INNER JOIN permissions p ON up.permission_id = p.id
   WHERE u.id = $1\<close>
\<close>

definition select_codes :: "perm_db \<Rightarrow> int64 \<Rightarrow> string list" where
  "select_codes db userID =
     [code. u \<leftarrow> users db,
            (user_id, permission_id) \<leftarrow> users_permissions db, u = user_id,
            (pid, code) \<leftarrow> permissions db, permission_id = pid,
            u = userID]"

text \<open>The loop \<open>for rows.Next()\<close>: each scanned code is appended to the slice.\<close>

fun scan_rows :: "string list \<Rightarrow> Permissions \<Rightarrow> Permissions" where
  "scan_rows [] perms = perms"
| "scan_rows (permission # rows) perms = scan_rows rows (perms @ [permission])"

text \<open>
  \<open>GetAllForUser\<close> runs the query under a context with a timeout of 3 seconds. An
  error of \<open>QueryContext\<close> or of \<open>rows.Err()\<close> is returned; scanning a code into a
  Go string does not fail.
\<close>

definition GetAllForUser :: "conduct \<Rightarrow> perm_db \<Rightarrow> int64 \<Rightarrow> error + Permissions" where
  "GetAllForUser c db userID =
     (case with_timeout 3000 c (select_codes db userID) of
        Inl e \<Rightarrow> Inl e
      | Inr rows \<Rightarrow> Inr (scan_rows rows []))"

text \<open>
  \<open>INSERT INTO users_permissions
   SELECT $1, permissions.id FROM permissions WHERE permissions.code = ANY($2)\<close>
\<close>

definition insert_permissions :: "perm_db \<Rightarrow> int64 \<Rightarrow> string list \<Rightarrow> perm_db" where
  "insert_permissions db userID codes =
     db\<lparr>users_permissions :=
          users_permissions db @
          [(userID, pid). (pid, code) \<leftarrow> permissions db, code \<in> set codes]\<rparr>"

text \<open>
  \<open>AddForUser\<close> runs the statement under a context with a timeout of 3 seconds and
  returns the error of \<open>ExecContext\<close>; the number of rows inserted is discarded.
\<close>

definition AddForUser ::
  "conduct \<Rightarrow> perm_db \<Rightarrow> int64 \<Rightarrow> string list \<Rightarrow> error option \<times> perm_db" where
  "AddForUser c db userID codes =
     (case with_timeout 3000 c (insert_permissions db userID codes) of
        Inl e \<Rightarrow> (Some e, db)
      | Inr db' \<Rightarrow> (None, db'))"

subsection \<open>getMovieHandler\<close>

text \<open>
  The helpers \<open>readIDParam\<close>, \<open>notFoundResponse\<close>, \<open>writeJSON\<close> and
  \<open>serverErrorResponse\<close> are not among the sources. What \<open>readIDParam\<close>
  returns and the error \<open>writeJSON\<close> returns are parameters of the handler, and the
  handler's response is the list of the response helpers it calls, with their arguments.
\<close>

datatype 'r response_call =
    NotFoundResponse
  | WriteJSON nat "(string \<times> 'r Movie) list"
  | ServerErrorResponse error

text \<open>\<open>http.StatusCreated\<close>\<close>

definition StatusCreated :: nat where
  "StatusCreated = 201"

text \<open>
  The handler of \<open>GET /v1/movies/:id\<close> that answers in JSON. \<open>now\<close> is
  \<open>time.Now()\<close>. The field \<open>Year\<close> is not set in the source and so has Go's zero
  value. The models of the application are not consulted.
\<close>

definition getMovieHandler ::
  "error + int64 \<Rightarrow> int \<Rightarrow> error option \<Rightarrow> ('r::{zero,numeral}) response_call list" where
  "getMovieHandler readIDParam now writeJSON_err =
     (case readIDParam of
        Inl err \<Rightarrow> [NotFoundResponse]
      | Inr i \<Rightarrow>
          if sint i < 1 then [NotFoundResponse]
          else
            (let movie = \<lparr>ID = i, CreatedAt = now, Title = ''Casablanca'', Year = 0,
                          Runtime = 102, Genres = Some [''drama'', ''romance'', ''war''],
                          Version = 1\<rparr>
             in WriteJSON StatusCreated [(''movie'', movie)] #
                (case writeJSON_err of
                   None \<Rightarrow> []
                 | Some err \<Rightarrow> [ServerErrorResponse err])))"

text \<open>
  The fields of a \<open>Movie\<close> that its struct tags let into the JSON encoding: all but
  \<open>CreatedAt\<close>, whose tag is \<open>json:"-"\<close>.
\<close>

definition json_fields ::
  "'r Movie \<Rightarrow> int64 \<times> string \<times> int32 \<times> 'r \<times> string list option \<times> int32" where
  "json_fields m = (ID m, Title m, Year m, Runtime m, Genres m, Version m)"

subsection \<open>main and openDB\<close>









subsection \<open>Example values\<close>

text \<open>A table with one movie, stored under id 1 at version 3.\<close>

definition stored_row :: "int movie_row" where
  "stored_row = \<lparr>created_at = 0, title = ''Casablanca'', year = 1942, runtime = 102,
                  genres = Some [''drama''], version = 3\<rparr>"

definition stored_movies :: "int movies" where
  "stored_movies = [1 \<mapsto> stored_row]"

text \<open>A caller's struct for id 1 that still carries version 1, and the same for id 7.\<close>

definition stale_movie :: "int Movie" where
  "stale_movie = \<lparr>ID = 1, CreatedAt = 0, Title = ''Casablanca II'', Year = 1943,
                   Runtime = 90, Genres = Some [''war''], Version = 1\<rparr>"

definition absent_movie :: "int Movie" where
  "absent_movie = stale_movie\<lparr>ID := 7\<rparr>"

text \<open>
  Two users and two permissions; user 1 holds both, user 2 holds none.
\<close>

definition grants :: perm_db where
  "grants = \<lparr>users = [1, 2],
             users_permissions = [(1, 1), (1, 2)],
             permissions = [(1, ''movies:read''), (2, ''movies:write'')]\<rparr>"

text \<open>A movie that passes validation in 2026.\<close>

definition casablanca :: "int Movie" where
  "casablanca = \<lparr>ID = 0, CreatedAt = 0, Title = ''Casablanca'', Year = 1942,
                  Runtime = 102, Genres = Some [''drama'', ''romance'', ''war''],
                  Version = 0\<rparr>"




section \<open>Properties of MovieModel\<close>

subsection \<open>Auxiliary facts\<close>

lemma sint_succ_int32:
  fixes v :: int32
  assumes "sint v \<noteq> 2147483647"
  shows "sint (v + 1) = sint v + 1"
proof -
  have "sint v < 2 ^ 31" using sint_lt [of v] by simp
  with assms have up: "sint v + 1 < 2 ^ 31" by simp
  have lo: "- (2 ^ 31) \<le> sint v + 1" using sint_ge [of v] by simp
  have "sint (v + 1) = signed_take_bit 31 (sint v + 1)"
    by (simp add: sint_word_ariths)
  also have "\<dots> = sint v + 1"
    using lo up by (simp add: signed_take_bit_int_eq_self)
  finally show ?thesis .
qed

lemma update_movie_version_free:
  "update_movie tbl (movie\<lparr>Version := v\<rparr>) = update_movie tbl movie"
  by (simp add: update_movie_def split: option.splits)

lemma Update_success:
  assumes "Update c tbl movie = Some (None, movie', tbl')"
  shows "\<exists>row. tbl (ID movie) = Some row \<and> sint (version row) \<noteq> 2147483647
           \<and> movie' = movie\<lparr>Version := version row + 1\<rparr>
           \<and> tbl' = tbl(ID movie \<mapsto> row\<lparr>title := Title movie, year := Year movie,
                                        runtime := Runtime movie, genres := Genres movie,
                                        version := version row + 1\<rparr>)"
  using assms
  by (cases c; cases "tbl (ID movie)")
     (auto simp: Update_def no_deadline_def update_movie_def split: if_splits)

lemma Get_NotFound_iff:
  "Get c tbl i = Some (Inl ErrRecordNotFound) \<longleftrightarrow>
     sint i < 1 \<or> ((\<exists>t. c = Answers t) \<and> tbl i = None)"
  by (cases c; cases "tbl i")
     (auto simp: Get_def no_deadline_def select_movie_def)

lemma Delete_NotFound_iff:
  "Delete c count_err tbl i = Some (Some ErrRecordNotFound, tbl') \<longleftrightarrow>
     tbl' = tbl \<and> (sint i < 1 \<or> ((\<exists>t. c = Answers t) \<and> count_err = None \<and> tbl i = None))"
  by (cases c; cases "tbl i"; cases count_err)
     (auto simp: Delete_def no_deadline_def delete_movie_def)

lemma delete_movie_zero: "fst (delete_movie tbl i) = 0 \<longleftrightarrow> tbl i = None"
  by (simp add: delete_movie_def split: option.splits)

lemma select_movie_empty: "select_movie tbl i = [] \<longleftrightarrow> tbl i = None"
  by (simp add: select_movie_def split: option.splits)

subsection \<open>The presented version\<close>

text \<open>
  Claim C1 says that an update presented with a version other than the stored one
  matches no row, leaves the record as it was and reports an edit conflict. The
  statement of \<open>Update\<close> compares the id only. With version 3 stored under id 1 and a
  struct for id 1 that carries version 1, \<open>Update\<close> returns no error, overwrites the
  stored fields and stores version 4.
\<close>

theorem Update_stale_counterexample:
  "Version stale_movie \<noteq> version stored_row
   \<and> stored_movies (ID stale_movie) = Some stored_row
   \<and> Update (Answers 5) stored_movies stale_movie =
       Some (None, stale_movie\<lparr>Version := 4\<rparr>,
             [1 \<mapsto> \<lparr>created_at = 0, title = ''Casablanca II'', year = 1943, runtime = 90,
                    genres = Some [''war''], version = 4\<rparr>])"
  by (simp add: Update_def no_deadline_def update_movie_def stored_row_def stale_movie_def
        stored_movies_def)

text \<open>
  Claim C1 as amended: \<open>Update\<close> selects the row by id alone and never reads the
  version the caller presents. Whenever a record is stored under the presented id, below
  the largest \<open>int32\<close> version, and the database answers, the update is applied: no
  error, the stored fields overwritten by the caller's, the stored version raised by 1
  and written back to the caller. For every behaviour of the database, the error
  returned and the table left behind are the same for every presented version.
\<close>

theorem Update_matches_id_only:
  "(tbl (ID movie) = Some row \<and> sint (version row) \<noteq> 2147483647 \<longrightarrow>
      Update (Answers t) tbl movie =
        Some (None, movie\<lparr>Version := version row + 1\<rparr>,
              tbl(ID movie \<mapsto> row\<lparr>title := Title movie, year := Year movie,
                                     runtime := Runtime movie, genres := Genres movie,
                                     version := version row + 1\<rparr>)))
   \<and> map_option (\<lambda>(e, m, tbl'). (e, tbl')) (Update c tbl (movie\<lparr>Version := v\<rparr>))
       = map_option (\<lambda>(e, m, tbl'). (e, tbl')) (Update c tbl movie)"
proof (intro conjI impI)
  assume "tbl (ID movie) = Some row \<and> sint (version row) \<noteq> 2147483647"
  then show "Update (Answers t) tbl movie =
        Some (None, movie\<lparr>Version := version row + 1\<rparr>,
              tbl(ID movie \<mapsto> row\<lparr>title := Title movie, year := Year movie,
                                     runtime := Runtime movie, genres := Genres movie,
                                     version := version row + 1\<rparr>))"
    by (simp add: Update_def no_deadline_def update_movie_def)
next
  show "map_option (\<lambda>(e, m, tbl'). (e, tbl')) (Update c tbl (movie\<lparr>Version := v\<rparr>))
       = map_option (\<lambda>(e, m, tbl'). (e, tbl')) (Update c tbl movie)"
    by (cases c; cases "update_movie tbl movie")
       (auto simp: Update_def no_deadline_def update_movie_version_free
             split: list.splits)
qed

text \<open>
  The amended claim C1 at the stored movie: the record exists below the largest
  version, and the update presented with the stale version 1 is applied.
\<close>

theorem Update_matches_id_only_witness:
  "stored_movies (ID stale_movie) = Some stored_row
   \<and> sint (version stored_row) \<noteq> 2147483647
   \<and> Update (Answers 5) stored_movies stale_movie =
        Some (None, stale_movie\<lparr>Version := 4\<rparr>,
              stored_movies(1 \<mapsto> stored_row\<lparr>title := ''Casablanca II'', year := 1943,
                    runtime := 90, genres := Some [''war''], version := 4\<rparr>))"
  using Update_matches_id_only [of stored_movies stale_movie stored_row 5]
  by (simp add: stored_row_def stale_movie_def stored_movies_def)

subsection \<open>Zero rows matched\<close>

text \<open>
  Claim C2 says that a mutation matching zero rows reports an edit conflict when the id
  exists at another version and not-found when the id does not exist. No record is
  stored under id 7; \<open>Update\<close> for id 7 matches zero rows and returns
  \<open>sql.ErrNoRows\<close> as the scan reports it, which is not \<open>ErrRecordNotFound\<close>.
  And the update for id 1, stored at version 3 and presented at version 1, does not
  match zero rows: its statement returns the one new version 4.
\<close>

theorem Update_absent_counterexample:
  "stored_movies (ID absent_movie) = None
   \<and> update_movie stored_movies absent_movie = Inr ([], stored_movies)
   \<and> Update (Answers 5) stored_movies absent_movie
       = Some (Some ErrNoRows, absent_movie, stored_movies)
   \<and> ErrNoRows \<noteq> ErrRecordNotFound
   \<and> Version stale_movie \<noteq> version stored_row
   \<and> map_sum id fst (update_movie stored_movies stale_movie) = Inr [4]"
  by (simp add: Update_def no_deadline_def update_movie_def absent_movie_def stale_movie_def
        stored_movies_def stored_row_def)

text \<open>
  Claim C2 as amended: the statements of \<open>Update\<close> and \<open>Delete\<close> match rows by id
  alone, so a mutation matches zero rows exactly when no record is stored under the id,
  whatever version is stored or presented; the code has no edit-conflict error. When
  \<open>Delete\<close> is called with an id of at least 1 and its statement matches zero rows, it
  reports \<open>ErrRecordNotFound\<close> and leaves the table as it was.
\<close>

theorem zero_rows_iff_absent:
  "(update_movie tbl movie = Inr ([], tbl') \<longleftrightarrow> tbl (ID movie) = None \<and> tbl' = tbl)
   \<and> (fst (delete_movie tbl i) = 0 \<longleftrightarrow> tbl i = None)
   \<and> (1 \<le> sint i \<and> fst (delete_movie tbl i) = 0 \<longrightarrow>
        Delete (Answers t) None tbl i = Some (Some ErrRecordNotFound, tbl))"
proof (intro conjI impI)
  show "update_movie tbl movie = Inr ([], tbl') \<longleftrightarrow> tbl (ID movie) = None \<and> tbl' = tbl"
    by (cases "tbl (ID movie)") (auto simp: update_movie_def)
  show "fst (delete_movie tbl i) = 0 \<longleftrightarrow> tbl i = None"
    by (rule delete_movie_zero)
  assume "1 \<le> sint i \<and> fst (delete_movie tbl i) = 0"
  then show "Delete (Answers t) None tbl i = Some (Some ErrRecordNotFound, tbl)"
    by (simp add: Delete_NotFound_iff delete_movie_zero)
qed

text \<open>
  The amended claim C2 at the stored movie: for the absent id 7 both statements match
  zero rows and \<open>Delete\<close> reports \<open>ErrRecordNotFound\<close>; for the stored id 1 the
  update matches a row although the presented version is stale.
\<close>

theorem zero_rows_iff_absent_witness:
  "1 \<le> sint (7 :: int64) \<and> fst (delete_movie stored_movies 7) = 0
   \<and> update_movie stored_movies absent_movie = Inr ([], stored_movies)
   \<and> update_movie stored_movies stale_movie \<noteq> Inr ([], stored_movies)
   \<and> Delete (Answers 5) None stored_movies 7 = Some (Some ErrRecordNotFound, stored_movies)"
  using zero_rows_iff_absent [of stored_movies absent_movie stored_movies 7 5]
        zero_rows_iff_absent [of stored_movies stale_movie stored_movies 7 5]
  by (simp add: absent_movie_def stale_movie_def delete_movie_def stored_movies_def)

subsection \<open>The version after an update\<close>

text \<open>
  Claim C3: every successful \<open>Update\<close> raises the stored version by exactly 1, and
  the version written back into the caller's struct is the previous stored version plus
  1. The sum is taken on the signed values, so it has not wrapped around.
\<close>

theorem Update_increments_version:
  assumes "Update c tbl movie = Some (None, movie', tbl')"
  shows "\<exists>row row'. tbl (ID movie) = Some row \<and> tbl' (ID movie) = Some row'
           \<and> sint (version row') = sint (version row) + 1
           \<and> Version movie' = version row'"
proof -
  from Update_success [OF assms] obtain row where
    r: "tbl (ID movie) = Some row" "sint (version row) \<noteq> 2147483647"
       "movie' = movie\<lparr>Version := version row + 1\<rparr>"
       "tbl' = tbl(ID movie \<mapsto> row\<lparr>title := Title movie, year := Year movie,
                                        runtime := Runtime movie, genres := Genres movie,
                                        version := version row + 1\<rparr>)"
    by blast
  show ?thesis using r sint_succ_int32 [OF r(2)] by simp
qed

text \<open>
  Claim C3 at the stored movie: the update succeeds, version 3 becomes version 4 in the
  table and in the caller's struct.
\<close>

theorem Update_increments_version_witness:
  "Update (Answers 5) stored_movies stale_movie
     = Some (None, stale_movie\<lparr>Version := 4\<rparr>,
             stored_movies(1 \<mapsto> stored_row\<lparr>title := ''Casablanca II'', year := 1943,
                   runtime := 90, genres := Some [''war''], version := 4\<rparr>))
   \<and> (\<exists>row row'. stored_movies (ID stale_movie) = Some row
         \<and> (stored_movies(1 \<mapsto> stored_row\<lparr>title := ''Casablanca II'', year := 1943,
                   runtime := 90, genres := Some [''war''], version := 4\<rparr>)) (ID stale_movie)
             = Some row'
         \<and> sint (version row') = sint (version row) + 1
         \<and> Version (stale_movie\<lparr>Version := 4\<rparr>) = version row')"
proof -
  have run: "Update (Answers 5) stored_movies stale_movie
     = Some (None, stale_movie\<lparr>Version := 4\<rparr>,
             stored_movies(1 \<mapsto> stored_row\<lparr>title := ''Casablanca II'', year := 1943,
                   runtime := 90, genres := Some [''war''], version := 4\<rparr>))"
    by (simp add: Update_def no_deadline_def update_movie_def stored_row_def stale_movie_def
          stored_movies_def)
  show ?thesis using run Update_increments_version [OF run] by blast
qed

subsection \<open>Not found\<close>

text \<open>
  Claim C7: \<open>Get\<close> and \<open>Delete\<close> report \<open>ErrRecordNotFound\<close> exactly when no
  record with the id exists. An id below 1 is answered with \<open>ErrRecordNotFound\<close>
  whatever the database does and whatever it holds, and \<open>Delete\<close> leaves the table as it
  was. Otherwise \<open>Get\<close> reports it exactly when the database answers with an empty
  result, and \<open>Delete\<close> exactly when the database answers, the driver reports the row
  count and zero rows were deleted. An empty result and zero rows deleted both mean that
  no record is stored under the id. So on a table whose ids are all at least 1, and with
  a database that answers, each of the two reports \<open>ErrRecordNotFound\<close> exactly when
  no record is stored under the id.
\<close>

theorem Get_Delete_NotFound:
  "(Get c tbl i = Some (Inl ErrRecordNotFound) \<longleftrightarrow>
      sint i < 1 \<or> ((\<exists>t. c = Answers t) \<and> select_movie tbl i = []))
   \<and> (select_movie tbl i = [] \<longleftrightarrow> tbl i = None)
   \<and> (Delete c count_err tbl i = Some (Some ErrRecordNotFound, tbl') \<longleftrightarrow>
        tbl' = tbl \<and>
        (sint i < 1 \<or>
         ((\<exists>t. c = Answers t) \<and> count_err = None \<and> fst (delete_movie tbl i) = 0)))
   \<and> (fst (delete_movie tbl i) = 0 \<longleftrightarrow> tbl i = None)
   \<and> ((\<forall>k \<in> dom tbl. 1 \<le> sint k) \<longrightarrow>
        (Get (Answers t) tbl i = Some (Inl ErrRecordNotFound) \<longleftrightarrow> tbl i = None) \<and>
        (Delete (Answers t) None tbl i = Some (Some ErrRecordNotFound, tbl) \<longleftrightarrow> tbl i = None))"
proof (intro conjI impI)
  show "Get c tbl i = Some (Inl ErrRecordNotFound) \<longleftrightarrow>
      sint i < 1 \<or> ((\<exists>t. c = Answers t) \<and> select_movie tbl i = [])"
    by (simp add: Get_NotFound_iff select_movie_empty)
  show "select_movie tbl i = [] \<longleftrightarrow> tbl i = None"
    by (rule select_movie_empty)
  show "Delete c count_err tbl i = Some (Some ErrRecordNotFound, tbl') \<longleftrightarrow>
        tbl' = tbl \<and>
        (sint i < 1 \<or>
         ((\<exists>t. c = Answers t) \<and> count_err = None \<and> fst (delete_movie tbl i) = 0))"
    by (simp add: Delete_NotFound_iff delete_movie_zero)
  show "fst (delete_movie tbl i) = 0 \<longleftrightarrow> tbl i = None"
    by (rule delete_movie_zero)
next
  assume pos: "\<forall>k \<in> dom tbl. 1 \<le> sint k"
  have low: "sint i < 1 \<Longrightarrow> tbl i = None"
  proof (rule ccontr)
    assume "sint i < 1" and "tbl i \<noteq> None"
    then have "i \<in> dom tbl" by (simp add: dom_def)
    with pos have "1 \<le> sint i" by blast
    with \<open>sint i < 1\<close> show False by simp
  qed
  show "Get (Answers t) tbl i = Some (Inl ErrRecordNotFound) \<longleftrightarrow> tbl i = None"
    using low by (auto simp: Get_NotFound_iff)
  show "Delete (Answers t) None tbl i = Some (Some ErrRecordNotFound, tbl) \<longleftrightarrow> tbl i = None"
    using low by (auto simp: Delete_NotFound_iff)
qed

text \<open>
  Claim C7 at the stored movie, whose only id is 1: ids 0 and -3 are not found even when
  the database hangs, the absent id 7 is not found, the stored id 1 is found.
\<close>

theorem Get_Delete_NotFound_witness:
  "dom stored_movies = {1} \<and> 1 \<le> sint (1 :: int64)
   \<and> Get Hangs stored_movies 0 = Some (Inl ErrRecordNotFound)
   \<and> Get (Answers 5) stored_movies 7 = Some (Inl ErrRecordNotFound)
   \<and> Get (Answers 5) stored_movies 1 \<noteq> Some (Inl ErrRecordNotFound)
   \<and> Delete Hangs None stored_movies (- 3) = Some (Some ErrRecordNotFound, stored_movies)
   \<and> Delete (Answers 5) None stored_movies 7 = Some (Some ErrRecordNotFound, stored_movies)
   \<and> Delete (Answers 5) None stored_movies 1 \<noteq> Some (Some ErrRecordNotFound, stored_movies)"
proof -
  have keys: "dom stored_movies = {1}"
    by (simp add: stored_movies_def)
  then have pos: "\<forall>k \<in> dom stored_movies. 1 \<le> sint k"
    by simp
  show ?thesis
    using keys pos
      Get_Delete_NotFound [of Hangs stored_movies 0 None stored_movies 5]
      Get_Delete_NotFound [of "Answers 5" stored_movies 7 None stored_movies 5]
      Get_Delete_NotFound [of "Answers 5" stored_movies 1 None stored_movies 5]
      Get_Delete_NotFound [of Hangs stored_movies "- 3" None stored_movies 5]
    by (simp add: select_movie_def delete_movie_def stored_movies_def)
qed

section \<open>Deadlines\<close>

text \<open>
  Claim C4 says that every operation bound to the database, the permission fetch and
  the movie write in particular, runs under a deadline of a few seconds and is aborted
  with a timeout error when it exceeds it. \<open>GetAllForUser\<close> and \<open>AddForUser\<close> do:
  with a database that hangs, or one that needs 3001 milliseconds, they return a
  deadline error. \<open>Update\<close> calls \<open>QueryRow\<close> without a context: with a database that
  hangs it never returns.
\<close>

theorem Update_hangs_without_deadline:
  "Update Hangs stored_movies stale_movie = None
   \<and> GetAllForUser Hangs grants 1 = Inl ErrDeadlineExceeded
   \<and> GetAllForUser (Answers 3001) grants 1 = Inl ErrDeadlineExceeded
   \<and> AddForUser Hangs grants 1 [''movies:read''] = (Some ErrDeadlineExceeded, grants)"
  by (simp add: Update_def no_deadline_def GetAllForUser_def AddForUser_def with_timeout_def)

section \<open>Properties of the permissions\<close>

lemma Include_iff: "Include p code \<longleftrightarrow> code \<in> set p"
  by (induction p) auto

lemma scan_rows_append: "scan_rows rows perms = perms @ rows"
  by (induction rows arbitrary: perms) auto

lemma set_select_codes:
  "set (select_codes db userID) =
     {code. userID \<in> set (users db) \<and>
            (\<exists>pid. (userID, pid) \<in> set (users_permissions db) \<and>
                   (pid, code) \<in> set (permissions db))}"
  by (auto simp: select_codes_def)

lemma grants_codes: "select_codes grants 1 = [''movies:read'', ''movies:write'']"
  by (simp add: select_codes_def grants_def)

lemma set_inserted:
  "set [(userID, pid). (pid, code) \<leftarrow> permissions db, code \<in> set codes] =
     {(userID, pid) | pid code. (pid, code) \<in> set (permissions db) \<and> code \<in> set codes}"
  by auto

lemma inserted_none:
  "set codes \<inter> snd ` set perms = {} \<Longrightarrow>
     [(userID, pid). (pid, code) \<leftarrow> perms, code \<in> set codes] = []"
  by (induction perms) auto

text \<open>
  Claim C6: \<open>Include\<close> holds exactly when the code equals an element of the list.
  Whatever \<open>GetAllForUser\<close> returns as permissions consists of exactly the codes
  joined to the user id: the codes of those permissions that \<open>users_permissions\<close> pairs
  with the id of an existing user. When the database answers within the 3 seconds it
  returns the rows of the join.
\<close>

theorem Include_and_GetAllForUser:
  "(Include p code \<longleftrightarrow> code \<in> set p)
   \<and> (GetAllForUser c db userID = Inr perms \<longrightarrow>
        set perms =
          {code. userID \<in> set (users db) \<and>
                 (\<exists>pid. (userID, pid) \<in> set (users_permissions db) \<and>
                        (pid, code) \<in> set (permissions db))})
   \<and> (t \<le> 3000 \<longrightarrow> GetAllForUser (Answers t) db userID = Inr (select_codes db userID))"
proof (intro conjI impI)
  show "Include p code \<longleftrightarrow> code \<in> set p" by (rule Include_iff)
next
  assume "GetAllForUser c db userID = Inr perms"
  then have "perms = select_codes db userID"
    by (cases c)
       (auto simp: GetAllForUser_def with_timeout_def scan_rows_append split: if_splits)
  then show "set perms =
          {code. userID \<in> set (users db) \<and>
                 (\<exists>pid. (userID, pid) \<in> set (users_permissions db) \<and>
                        (pid, code) \<in> set (permissions db))}"
    by (simp only: set_select_codes)
next
  assume "t \<le> 3000"
  then show "GetAllForUser (Answers t) db userID = Inr (select_codes db userID)"
    by (simp add: GetAllForUser_def with_timeout_def scan_rows_append)
qed

text \<open>
  Claim C6 on the example tables: user 1 is returned both codes, \<open>movies:write\<close> is
  included in them and \<open>movies:delete\<close> is not.
\<close>

theorem Include_and_GetAllForUser_witness:
  "(5::nat) \<le> 3000
   \<and> GetAllForUser (Answers 5) grants 1 = Inr [''movies:read'', ''movies:write'']
   \<and> set [''movies:read'', ''movies:write''] =
          {code. (1::int64) \<in> set (users grants) \<and>
                 (\<exists>pid. (1, pid) \<in> set (users_permissions grants) \<and>
                        (pid, code) \<in> set (permissions grants))}
   \<and> Include [''movies:read'', ''movies:write''] ''movies:write''
   \<and> \<not> Include [''movies:read'', ''movies:write''] ''movies:delete''"
proof -
  have le: "(5::nat) \<le> 3000" by simp
  have run: "GetAllForUser (Answers 5) grants 1 = Inr [''movies:read'', ''movies:write'']"
    using Include_and_GetAllForUser [of "[]" "''x''" "Answers 5" grants 1 "[]" 5] le
    by (simp add: grants_codes)
  show ?thesis
    using le run
      Include_and_GetAllForUser [of "[''movies:read'', ''movies:write'']" "''movies:write''"
        "Answers 5" grants 1 "[''movies:read'', ''movies:write'']" 5]
      Include_and_GetAllForUser [of "[''movies:read'', ''movies:write'']" "''movies:delete''"
        "Answers 5" grants 1 "[''movies:read'', ''movies:write'']" 5]
    by simp
qed

text \<open>
  Claim C9: when the database answers within the 3 seconds, \<open>AddForUser\<close> returns no
  error whatever codes it is given. The rows it adds to \<open>users_permissions\<close> are those
  of the permissions whose code is among the given ones, and the other tables stay as
  they were. When none of the given codes is in the table \<open>permissions\<close>, nothing is
  added at all and the call still returns no error.
\<close>

theorem AddForUser_skips_unknown_codes:
  "(t \<le> 3000 \<longrightarrow>
      fst (AddForUser (Answers t) db userID codes) = None \<and>
      users (snd (AddForUser (Answers t) db userID codes)) = users db \<and>
      permissions (snd (AddForUser (Answers t) db userID codes)) = permissions db \<and>
      set (users_permissions (snd (AddForUser (Answers t) db userID codes))) =
        set (users_permissions db) \<union>
        {(userID, pid) | pid code. (pid, code) \<in> set (permissions db) \<and> code \<in> set codes})
   \<and> (t \<le> 3000 \<and> set codes \<inter> snd ` set (permissions db) = {} \<longrightarrow>
        AddForUser (Answers t) db userID codes = (None, db))"
proof (intro conjI impI)
  assume t: "t \<le> 3000"
  then have run:
    "AddForUser (Answers t) db userID codes = (None, insert_permissions db userID codes)"
    by (simp add: AddForUser_def with_timeout_def)
  show "fst (AddForUser (Answers t) db userID codes) = None"
    by (simp add: run)
  show "users (snd (AddForUser (Answers t) db userID codes)) = users db"
    by (simp add: run insert_permissions_def)
  show "permissions (snd (AddForUser (Answers t) db userID codes)) = permissions db"
    by (simp add: run insert_permissions_def)
  show "set (users_permissions (snd (AddForUser (Answers t) db userID codes))) =
        set (users_permissions db) \<union>
        {(userID, pid) | pid code. (pid, code) \<in> set (permissions db) \<and> code \<in> set codes}"
    using set_inserted [where userID = userID and db = db and codes = codes]
    by (simp add: run insert_permissions_def)
next
  assume "t \<le> 3000 \<and> set codes \<inter> snd ` set (permissions db) = {}"
  then show "AddForUser (Answers t) db userID codes = (None, db)"
    by (simp add: AddForUser_def with_timeout_def insert_permissions_def inserted_none)
qed

text \<open>
  Claim C9 on the example tables: neither \<open>movies:delete\<close> nor \<open>admin\<close> is a known
  code, adding them for user 2 returns no error and changes nothing, and user 2 still
  has no permission; of \<open>movies:read\<close> and \<open>admin\<close> only the first produces a row.
\<close>

theorem AddForUser_skips_unknown_codes_witness:
  "(5::nat) \<le> 3000
   \<and> set [''movies:delete'', ''admin''] \<inter> snd ` set (permissions grants) = {}
   \<and> AddForUser (Answers 5) grants 2 [''movies:delete'', ''admin''] = (None, grants)
   \<and> GetAllForUser (Answers 5) grants 2 = Inr []
   \<and> AddForUser (Answers 5) grants 2 [''movies:read'', ''admin'']
       = (None, grants\<lparr>users_permissions := [(1, 1), (1, 2), (2, 1)]\<rparr>)"
proof -
  have le: "(5::nat) \<le> 3000" by simp
  have unknown: "set [''movies:delete'', ''admin''] \<inter> snd ` set (permissions grants) = {}"
    by (simp add: grants_def)
  have "AddForUser (Answers 5) grants 2 [''movies:delete'', ''admin''] = (None, grants)"
    using AddForUser_skips_unknown_codes [of 5 grants 2 "[''movies:delete'', ''admin'']"]
      le unknown
    by blast
  moreover have "GetAllForUser (Answers 5) grants 2 = Inr []"
    by (simp add: GetAllForUser_def with_timeout_def select_codes_def grants_def)
  moreover have "AddForUser (Answers 5) grants 2 [''movies:read'', ''admin'']
       = (None, grants\<lparr>users_permissions := [(1, 1), (1, 2), (2, 1)]\<rparr>)"
    by (simp add: AddForUser_def with_timeout_def insert_permissions_def grants_def)
  ultimately show ?thesis using le unknown by blast
qed

section \<open>Properties of validation\<close>

lemma Check_Nil: "Check ok key message v = [] \<longleftrightarrow> ok \<and> v = []"
  by (simp add: Check_def)

lemma ValidateMovie_Nil:
  "ValidateMovie now_year [] m = [] \<longleftrightarrow>
     Title m \<noteq> [] \<and> length (Title m) \<le> 500 \<and> Year m \<noteq> 0 \<and> 1888 \<le> sint (Year m)
     \<and> sint (Year m) \<le> sint (word_of_int now_year :: int32)
     \<and> Runtime m \<noteq> 0 \<and> Runtime m > 0 \<and> Genres m \<noteq> None
     \<and> length (elems (Genres m)) \<ge> 1 \<and> length (elems (Genres m)) \<le> 5
     \<and> Unique (elems (Genres m))"
  unfolding ValidateMovie_def Let_def Check_Nil by blast

lemma sint_int32_of_year:
  assumes "- (2 ^ 31) \<le> now_year" and "now_year < 2 ^ 31"
  shows "sint (word_of_int now_year :: int32) = now_year"
  using assms by (simp add: sint_sbintrunc' signed_take_bit_int_eq_self)

text \<open>
  Claim C10: on a fresh validator, \<open>ValidateMovie\<close> records no error exactly when the
  title is not empty and at most 500 bytes long, the year lies between 1888 and the
  current year, the runtime is positive, and the genres are a slice other than \<open>nil\<close>
  of 1 to 5 pairwise distinct entries. The code compares the year with
  \<open>int32(time.Now().Year())\<close>, which is the current year as long as that fits 32 bits.
\<close>

theorem ValidateMovie_valid_iff:
  assumes "- (2 ^ 31) \<le> now_year" and "now_year < 2 ^ 31"
  shows "ValidateMovie now_year [] m = [] \<longleftrightarrow>
           Title m \<noteq> [] \<and> length (Title m) \<le> 500
           \<and> 1888 \<le> sint (Year m) \<and> sint (Year m) \<le> now_year
           \<and> Runtime m > 0
           \<and> (\<exists>gs. Genres m = Some gs \<and> 1 \<le> length gs \<and> length gs \<le> 5 \<and> distinct gs)"
proof -
  have year: "Year m \<noteq> 0 \<and> 1888 \<le> sint (Year m) \<longleftrightarrow> 1888 \<le> sint (Year m)"
    by auto
  have run: "Runtime m \<noteq> 0 \<and> Runtime m > 0 \<longleftrightarrow> Runtime m > 0"
    by auto
  have gen: "Genres m \<noteq> None \<and> length (elems (Genres m)) \<ge> 1
             \<and> length (elems (Genres m)) \<le> 5 \<and> Unique (elems (Genres m)) \<longleftrightarrow>
             (\<exists>gs. Genres m = Some gs \<and> 1 \<le> length gs \<and> length gs \<le> 5 \<and> distinct gs)"
    by (cases "Genres m") (simp_all add: elems_def Unique_def)
  show ?thesis
    unfolding ValidateMovie_Nil sint_int32_of_year [OF assms]
    using year run gen by blast
qed

text \<open>
  Claim C10 in the year 2026: the example movie passes; a release year of 2027, a
  repeated genre and an empty genre list each record an error.
\<close>

theorem ValidateMovie_valid_iff_witness:
  "- (2 ^ 31) \<le> (2026 :: int) \<and> (2026 :: int) < 2 ^ 31
   \<and> ValidateMovie 2026 [] casablanca = []
   \<and> ValidateMovie 2026 [] (casablanca\<lparr>Year := 2027\<rparr>) \<noteq> []
   \<and> ValidateMovie 2026 [] (casablanca\<lparr>Genres := Some [''war'', ''war'']\<rparr>) \<noteq> []
   \<and> ValidateMovie 2026 [] (casablanca\<lparr>Genres := Some []\<rparr>) \<noteq> []"
proof -
  have lo: "- (2 ^ 31) \<le> (2026 :: int)" and hi: "(2026 :: int) < 2 ^ 31" by simp_all
  show ?thesis
    using lo hi
      ValidateMovie_valid_iff [OF lo hi, of casablanca]
      ValidateMovie_valid_iff [OF lo hi, of "casablanca\<lparr>Year := 2027\<rparr>"]
      ValidateMovie_valid_iff [OF lo hi, of "casablanca\<lparr>Genres := Some [''war'', ''war'']\<rparr>"]
      ValidateMovie_valid_iff [OF lo hi, of "casablanca\<lparr>Genres := Some []\<rparr>"]
    by (simp add: casablanca_def)
qed

section \<open>Properties of the handler and of the start\<close>

lemma getMovieHandler_ok:
  "1 \<le> sint i \<Longrightarrow>
   getMovieHandler (Inr i) now w =
     WriteJSON 201 [(''movie'', \<lparr>ID = i, CreatedAt = now, Title = ''Casablanca'', Year = 0,
                          Runtime = 102, Genres = Some [''drama'', ''romance'', ''war''],
                          Version = 1\<rparr>)] #
     (case w of None \<Rightarrow> [] | Some err \<Rightarrow> [ServerErrorResponse err])"
  by (simp add: getMovieHandler_def StatusCreated_def)

text \<open>
  Claim C8: for an id that parses and is at least 1, \<open>getMovieHandler\<close> answers through
  \<open>writeJSON\<close> with status 201 and a movie whose encoded fields are the echoed id, the
  title Casablanca, no year, the runtime 102, the genres drama, romance and war, and
  version 1, whatever the time and whatever is stored (the handler is not given the
  tables); \<open>serverErrorResponse\<close> follows only when \<open>writeJSON\<close> itself reports an
  error. An id below 1 and an id that does not parse get the not-found response.
\<close>

theorem getMovieHandler_fixed_movie:
  "(1 \<le> sint i \<longrightarrow>
      (\<exists>movie. getMovieHandler (Inr i) now w =
                 WriteJSON 201 [(''movie'', movie)] #
                 (case w of None \<Rightarrow> [] | Some err \<Rightarrow> [ServerErrorResponse err])
               \<and> json_fields movie =
                   (i, ''Casablanca'', 0, 102 :: 'r :: {zero,numeral},
                    Some [''drama'', ''romance'', ''war''], 1)))
   \<and> (sint i < 1 \<longrightarrow>
        getMovieHandler (Inr i) now w = ([NotFoundResponse] :: 'r response_call list))
   \<and> getMovieHandler (Inl err) now w = ([NotFoundResponse] :: 'r response_call list)"
proof (intro conjI impI)
  assume "1 \<le> sint i"
  from getMovieHandler_ok [OF this, of now w, where 'a = 'r]
  show "\<exists>movie. getMovieHandler (Inr i) now w =
                 WriteJSON 201 [(''movie'', movie)] #
                 (case w of None \<Rightarrow> [] | Some err \<Rightarrow> [ServerErrorResponse err])
               \<and> json_fields movie =
                   (i, ''Casablanca'', 0, 102 :: 'r,
                    Some [''drama'', ''romance'', ''war''], 1)"
    by (simp add: json_fields_def)
next
  assume "sint i < 1"
  then show "getMovieHandler (Inr i) now w = ([NotFoundResponse] :: 'r response_call list)"
    by (simp add: getMovieHandler_def)
next
  show "getMovieHandler (Inl err) now w = ([NotFoundResponse] :: 'r response_call list)"
    by (simp add: getMovieHandler_def)
qed

text \<open>
  Claim C8 at the ids 7, 0 and -2 and at an id that does not parse: id 7 is answered
  with status 201 and the fixed movie at two different times, the others are not found.
\<close>

theorem getMovieHandler_fixed_movie_witness:
  "1 \<le> sint (7 :: int64) \<and> sint (0 :: int64) < 1 \<and> sint (- 2 :: int64) < 1
   \<and> (\<exists>movie :: int Movie.
         getMovieHandler (Inr 7) 1000 None = [WriteJSON 201 [(''movie'', movie)]]
         \<and> json_fields movie =
             (7, ''Casablanca'', 0, 102, Some [''drama'', ''romance'', ''war''], 1))
   \<and> (\<exists>movie :: int Movie.
         getMovieHandler (Inr 7) 2000 None = [WriteJSON 201 [(''movie'', movie)]]
         \<and> json_fields movie =
             (7, ''Casablanca'', 0, 102, Some [''drama'', ''romance'', ''war''], 1))
   \<and> getMovieHandler (Inr 0) 1000 None = ([NotFoundResponse] :: int response_call list)
   \<and> getMovieHandler (Inr (- 2)) 1000 None = ([NotFoundResponse] :: int response_call list)
   \<and> getMovieHandler (Inl (Err ''invalid id parameter'')) 1000 None
       = ([NotFoundResponse] :: int response_call list)"
  using getMovieHandler_fixed_movie [of 7 1000 None "Err ''invalid id parameter''",
          where 'r = int]
        getMovieHandler_fixed_movie [of 7 2000 None "Err ''invalid id parameter''",
          where 'r = int]
        getMovieHandler_fixed_movie [of 0 1000 None "Err ''invalid id parameter''",
          where 'r = int]
        getMovieHandler_fixed_movie [of "- 2" 1000 None "Err ''invalid id parameter''",
          where 'r = int]
  by simp






end
